theory Spec2Isabelle
  imports Complex_Main "HOL-Library.Sublist"
begin

section \<open>JavaScript values\<close>

text \<open>
  A thrown JavaScript exception is a value: \<open>Error msg\<close> is \<^verbatim>\<open>new Error(msg)\<close>, and
  \<open>TypeError msg\<close> is the exception the runtime itself raises when a property of
  \<^verbatim>\<open>undefined\<close> is read. A function that can throw returns \<open>js_error + 'a\<close>.
  An optional or possibly \<^verbatim>\<open>undefined\<close> value is an \<open>option\<close>.
\<close>

datatype js_error = Error (message: string) | TypeError (message: string)

text \<open>
  A JavaScript number is an IEEE 754 double. A finite double is a rational, so numbers are
  values of type \<open>rat\<close>, and \<open>js_number x\<close> is the double nearest to \<open>x\<close>, a tie going to
  the even significand: what a numeric literal or a JSON numeral denotes, and what every
  arithmetic operation returns for its exact result. A double has 53 significant bits;
  below \<open>2^-1022\<close> the spacing stays \<open>2^-1074\<close>. Overflow to infinity (at \<open>2^1024\<close>) is not
  modelled: no product with a factor below one and no quotient by 60 of finite doubles
  overflows.
\<close>

function bit_length :: "int \<Rightarrow> int" where
  "bit_length n = (if n \<le> 0 then 0 else 1 + bit_length (n div 2))"
  by pat_completeness auto
termination
  by (relation "measure nat") auto

declare bit_length.simps [simp del]

function pow2 :: "int \<Rightarrow> rat" where
  "pow2 e = (if e = 0 then 1 else if 0 < e then 2 * pow2 (e - 1) else pow2 (e + 1) / 2)"
  by pat_completeness auto
termination
  by (relation "measure (\<lambda>e. nat \<bar>e\<bar>)") auto

declare pow2.simps [simp del]

text \<open>For positive \<open>x\<close>, the exponent \<open>e\<close> with \<open>2^e \<le> x < 2^(e+1)\<close>.\<close>

definition binary_exponent :: "rat \<Rightarrow> int" where
  "binary_exponent x =
     (if 1 \<le> x then bit_length \<lfloor>x\<rfloor> - 1 else - bit_length (\<lceil>1 / x\<rceil> - 1))"

definition round_half_even :: "rat \<Rightarrow> int" where
  "round_half_even q =
     (let n = \<lfloor>q\<rfloor>; r = q - of_int n
      in if r < 1 / 2 then n else if 1 / 2 < r then n + 1 else if even n then n else n + 1)"

definition js_number :: "rat \<Rightarrow> rat" where
  "js_number x =
     (if x = 0 then 0
      else
       (let a = \<bar>x\<bar>;
            e = max (binary_exponent a) (- 1022);
            ulp = pow2 (e - 52);
            m = of_int (round_half_even (a / ulp)) * ulp
        in if x < 0 then - m else m))"

definition js_mul :: "rat \<Rightarrow> rat \<Rightarrow> rat" where
  "js_mul a b = js_number (a * b)"

definition js_div :: "rat \<Rightarrow> rat \<Rightarrow> rat" where
  "js_div a b = js_number (a / b)"

type_synonym coords = "rat \<times> rat"

text \<open>\<^verbatim>\<open>a || b\<close> on optional strings: \<^verbatim>\<open>undefined\<close> and the empty string are falsy.\<close>

definition truthy :: "string option \<Rightarrow> bool" where
  "truthy v = (case v of None \<Rightarrow> False | Some s \<Rightarrow> s \<noteq> [])"

definition js_or :: "string option \<Rightarrow> string option \<Rightarrow> string option" where
  "js_or a b = (if truthy a then a else b)"

section \<open>The MCP tool invoker (lib/mcp.ts)\<close>

text \<open>
  The result of a \<^verbatim>\<open>tools/call\<close> request, as \<^verbatim>\<open>CallToolResultSchema\<close> parses it. Of a
  content entry the code reads only \<^verbatim>\<open>type\<close> and, for a text entry, \<^verbatim>\<open>text\<close>; the other
  kinds of the protocol carry no payload here. \<^verbatim>\<open>structuredContent\<close> is read as GeoJSON
  (\<^verbatim>\<open>features\<close>) by the search tools and as a directions reply (\<^verbatim>\<open>routes\<close>) by the routing
  tool. A feature is a GeoJSON feature: it has \<^verbatim>\<open>properties\<close>, whose fields may be absent,
  and a point geometry.
\<close>

datatype content_entry =
  TextContent (c_text: string) | ImageContent | AudioContent | ResourceLink | EmbeddedResource

record properties =
  p_name :: "string option"
  p_full_address :: "string option"
  p_place_formatted :: "string option"

record feature =
  f_properties :: properties
  f_coordinates :: coords  \<comment> \<open>\<^verbatim>\<open>feature.geometry.coordinates\<close>\<close>

record route =
  r_geometry :: "coords list"
  r_distance :: rat  \<comment> \<open>meters\<close>
  r_duration :: rat  \<comment> \<open>seconds\<close>

record structured =
  features :: "feature list option"
  routes :: "route list option"

record tool_result =
  isError :: bool
  content :: "content_entry list"
  structuredContent :: "structured option"

text \<open>The arguments the three operations send; \<^verbatim>\<open>proximity\<close> is (longitude, latitude).\<close>

datatype tool_args =
  GeocodeArgs (q: string) (g_proximity: coords) (g_country: "string list")
| CategoryArgs (category: string) (c_proximity: coords) (c_country: "string list")
    (limit: nat) (format: string)
| DirectionsArgs (d_coordinates: "coords list") (routing_profile: string) (geometries: string)

type_synonym tool_call = "string \<times> tool_args"

text \<open>
  The connected client: what \<^verbatim>\<open>client.request\<close> answers to a tool name and its arguments,
  a rejection (transport or schema failure) included. The two copies of the library, the
  hosted one (a fresh connection that carries the bearer token) and the local one (one
  shared subprocess client), differ only in how the client is obtained; the bodies
  modelled below are the same in both. Every request issued is appended to a log \<open>lg\<close>, the
  only effect of these functions.
\<close>

type_synonym mcp_server = "string \<Rightarrow> tool_args \<Rightarrow> js_error + tool_result"

definition callMCPTool ::
  "mcp_server \<Rightarrow> string \<Rightarrow> tool_args \<Rightarrow> tool_call list \<Rightarrow> (js_error + tool_result) \<times> tool_call list"
  where
  "callMCPTool srv toolName toolArgs lg = (srv toolName toolArgs, lg @ [(toolName, toolArgs)])"

text \<open>
  The error check repeated after every call:
  \<^verbatim>\<open>if (result.isError) { const firstContent = result.content[0];
    if (firstContent.type === 'text') throw new Error(`MCP tool error: ${firstContent.text}`);
    throw new Error('MCP tool returned an error'); }\<close>
  On an empty \<^verbatim>\<open>content\<close> array \<^verbatim>\<open>firstContent\<close> is \<^verbatim>\<open>undefined\<close> and reading its
  \<^verbatim>\<open>type\<close> raises the runtime's TypeError.
\<close>

definition check_error :: "tool_result \<Rightarrow> js_error option" where
  "check_error result =
     (if isError result then
        (case content result of
           [] \<Rightarrow> Some (TypeError ''Cannot read properties of undefined (reading 'type')'')
         | firstContent # _ \<Rightarrow>
            (case firstContent of
               TextContent t \<Rightarrow> Some (Error (''MCP tool error: '' @ t))
             | _ \<Rightarrow> Some (Error ''MCP tool returned an error'')))
      else None)"

text \<open>The features of a reply: none when \<^verbatim>\<open>!data || !data.features || data.features.length === 0\<close>.\<close>

definition no_features :: "structured option \<Rightarrow> bool" where
  "no_features data =
     (case data of None \<Rightarrow> True
      | Some d \<Rightarrow> (case features d of None \<Rightarrow> True | Some fs \<Rightarrow> length fs = 0))"

definition the_features :: "structured option \<Rightarrow> feature list" where
  "the_features data =
     (case data of None \<Rightarrow> []
      | Some d \<Rightarrow> (case features d of None \<Rightarrow> [] | Some fs \<Rightarrow> fs))"

record geocoded =
  g_name :: "string option"
  g_coordinates :: coords

record search_result =
  s_name :: "string option"
  s_coordinates :: coords
  s_address :: "string option"

definition geocodeLocation ::
  "mcp_server \<Rightarrow> string \<Rightarrow> tool_call list \<Rightarrow> (js_error + geocoded) \<times> tool_call list" where
  "geocodeLocation srv address lg =
     (case callMCPTool srv ''search_and_geocode_tool''
             (GeocodeArgs address (- 77.0369, 38.9072) [''us'']) lg of
        (Inl e, lg') \<Rightarrow> (Inl e, lg')
      | (Inr result, lg') \<Rightarrow>
         (case check_error result of
            Some e \<Rightarrow> (Inl e, lg')
          | None \<Rightarrow>
             (let data = structuredContent result in
              if no_features data then (Inl (Error (''Could not geocode: '' @ address)), lg')
              else
                (case the_features data of
                   [] \<Rightarrow> (Inl (Error (''Could not geocode: '' @ address)), lg')
                 | feature # _ \<Rightarrow>
                    (Inr \<lparr> g_name = js_or (p_name (f_properties feature))
                                      (p_full_address (f_properties feature)),
                           g_coordinates = f_coordinates feature \<rparr>, lg')))))"

definition categorySearch ::
  "mcp_server \<Rightarrow> string \<Rightarrow> coords \<Rightarrow> tool_call list
    \<Rightarrow> (js_error + search_result list) \<times> tool_call list" where
  "categorySearch srv cat proximity lg =
     (case callMCPTool srv ''category_search_tool''
             (CategoryArgs cat proximity [''us''] 10 ''json_string'') lg of
        (Inl e, lg') \<Rightarrow> (Inl e, lg')
      | (Inr result, lg') \<Rightarrow>
         (case check_error result of
            Some e \<Rightarrow> (Inl e, lg')
          | None \<Rightarrow>
             (let data = structuredContent result in
              if no_features data then (Inr [], lg')
              else
                (Inr (map (\<lambda>feature.
                        \<lparr> s_name = js_or (p_name (f_properties feature))
                                     (p_full_address (f_properties feature)),
                          s_coordinates = f_coordinates feature,
                          s_address = js_or (p_full_address (f_properties feature))
                                        (p_place_formatted (f_properties feature)) \<rparr>)
                      (the_features data)), lg'))))"

definition no_routes :: "structured option \<Rightarrow> bool" where
  "no_routes data =
     (case data of None \<Rightarrow> True
      | Some d \<Rightarrow> (case routes d of None \<Rightarrow> True | Some rs \<Rightarrow> length rs = 0))"

definition the_routes :: "structured option \<Rightarrow> route list" where
  "the_routes data =
     (case data of None \<Rightarrow> []
      | Some d \<Rightarrow> (case routes d of None \<Rightarrow> [] | Some rs \<Rightarrow> rs))"

definition calculateRoute ::
  "mcp_server \<Rightarrow> coords list \<Rightarrow> tool_call list \<Rightarrow> (js_error + route) \<times> tool_call list" where
  "calculateRoute srv coordinates lg =
     (let coordinateObjects = map (\<lambda>(longitude, latitude). (longitude, latitude)) coordinates in
      case callMCPTool srv ''directions_tool''
             (DirectionsArgs coordinateObjects ''walking'' ''geojson'') lg of
        (Inl e, lg') \<Rightarrow> (Inl e, lg')
      | (Inr result, lg') \<Rightarrow>
         (case check_error result of
            Some e \<Rightarrow> (Inl e, lg')
          | None \<Rightarrow>
             (let data = structuredContent result in
              if no_routes data then (Inl (Error ''No route found''), lg')
              else
                (case the_routes data of
                   [] \<Rightarrow> (Inl (Error ''No route found''), lg')
                 | r # _ \<Rightarrow> (Inr r, lg')))))"

section \<open>Unit conversion\<close>

text \<open>
  \<^verbatim>\<open>Math.round(x)\<close> is the integer nearest to the double \<open>x\<close>, a tie going up.
  \<^verbatim>\<open>x.toFixed(2)\<close> prints the sign, then the multiple of 1/100 nearest to the absolute
  value of the double (a tie going up) with exactly two decimals; this is its behaviour
  below \<open>10^21\<close>, far above any distance a route can have. The two conversions are written
  inline where a route is formatted: \<^verbatim>\<open>route.distance * 0.000621371\<close> and
  \<^verbatim>\<open>Math.round(route.duration / 60)\<close>; the product and the quotient are double
  operations, on the doubles that the numerals of the reply and of the source denote.
\<close>

definition Math_round :: "rat \<Rightarrow> int" where
  "Math_round x = \<lfloor>x + 1 / 2\<rfloor>"

definition digit :: "int \<Rightarrow> char" where
  "digit d = ''0123456789'' ! nat d"

function show_int :: "int \<Rightarrow> string" where
  "show_int n = (if n < 10 then [digit n] else show_int (n div 10) @ [digit (n mod 10)])"
  by pat_completeness auto
termination
  by (relation "measure nat") auto

declare show_int.simps [simp del]

definition toFixed2_abs :: "rat \<Rightarrow> string" where
  "toFixed2_abs x =
     (let n = \<lfloor>x * 100 + 1 / 2\<rfloor>
      in show_int (n div 100) @ ''.'' @ [digit (n mod 100 div 10), digit (n mod 10)])"

definition toFixed2 :: "rat \<Rightarrow> string" where
  "toFixed2 x = (if x < 0 then ''-'' @ toFixed2_abs (- x) else toFixed2_abs x)"

definition meters_to_miles :: "rat \<Rightarrow> rat" where
  "meters_to_miles d = js_mul (js_number d) (js_number 0.000621371)"

definition seconds_to_minutes :: "rat \<Rightarrow> int" where
  "seconds_to_minutes t = Math_round (js_div (js_number t) 60)"

section \<open>The plan-route handler (app/api/plan-route/route.ts)\<close>

record attraction =
  a_id :: string
  a_name :: string
  a_address :: string

record location =
  l_name :: string
  l_coordinates :: coords

text \<open>
  \<^verbatim>\<open>RouteData\<close> of the handler: the route is a GeoJSON feature with empty properties around
  the geometry, the distance a number of miles, the duration a number of minutes.
\<close>

record RouteData =
  rd_locations :: "location list"
  rd_route :: "coords list"
  rd_distance :: rat
  rd_duration :: int

datatype plan_response = JsonError (status: nat) (error_text: string) | JsonRoute RouteData

text \<open>
  The loop over the attractions: each is geocoded in turn, and the first failure returns
  the 500 response from inside the loop.
\<close>

fun geocode_loop ::
  "mcp_server \<Rightarrow> attraction list \<Rightarrow> location list \<Rightarrow> tool_call list
    \<Rightarrow> (plan_response + location list) \<times> tool_call list" where
  "geocode_loop srv [] locations lg = (Inr locations, lg)"
| "geocode_loop srv (a # rest) locations lg =
     (case geocodeLocation srv (a_address a) lg of
        (Inl e, lg') \<Rightarrow> (Inl (JsonError 500 (''Failed to geocode '' @ a_name a)), lg')
      | (Inr loc, lg') \<Rightarrow>
          geocode_loop srv rest
            (locations @ [\<lparr> l_name = a_name a, l_coordinates = g_coordinates loc \<rparr>]) lg')"

text \<open>
  The request body is what \<^verbatim>\<open>request.json()\<close> gives: a rejection (caught by the outer
  \<^verbatim>\<open>try\<close>), or the \<^verbatim>\<open>attractions\<close> field, which may be missing.
\<close>

definition POST_plan_route ::
  "mcp_server \<Rightarrow> js_error + attraction list option \<Rightarrow> tool_call list
    \<Rightarrow> plan_response \<times> tool_call list" where
  "POST_plan_route srv body lg =
     (case body of
        Inl e \<Rightarrow> (JsonError 500 (message e), lg)
      | Inr None \<Rightarrow> (JsonError 400 ''At least 2 attractions are required'', lg)
      | Inr (Some attractions) \<Rightarrow>
         if length attractions < 2
         then (JsonError 400 ''At least 2 attractions are required'', lg)
         else
          (case geocode_loop srv attractions [] lg of
             (Inl response, lg') \<Rightarrow> (response, lg')
           | (Inr locations, lg') \<Rightarrow>
              (let coordinates = map l_coordinates locations in
               case calculateRoute srv coordinates lg' of
                 (Inl e, lg'') \<Rightarrow> (JsonError 500 (message e), lg'')
               | (Inr r, lg'') \<Rightarrow>
                  (JsonRoute \<lparr> rd_locations = locations,
                               rd_route = r_geometry r,
                               rd_distance = meters_to_miles (r_distance r),
                               rd_duration = seconds_to_minutes (r_duration r) \<rparr>, lg''))))"

section \<open>The natural-language orchestrator (lib/agent.ts)\<close>

text \<open>\<^verbatim>\<open>RouteData\<close> of the agent module: here the distance is the two-decimal string.\<close>

record route_data =
  locations :: "geocoded list"
  route_geometry :: "coords list"
  distance :: string
  duration :: int

text \<open>The two module-level variables that the tools write and the orchestrator reads.\<close>

record captured =
  capturedSearchResults :: "search_result list option"
  capturedRouteData :: "route_data option"

datatype response_type = Search_results | Route | Text

record AgentResponse =
  ar_type :: response_type
  searchResults :: "search_result list option"
  routeData :: "route_data option"
  ar_text :: string

text \<open>What a tool hands back to the agent.\<close>

datatype tool_output =
  LocationOutput geocoded
| CategoryOutput nat "search_result list"
| RouteOutput string int

definition search_location_execute ::
  "mcp_server \<Rightarrow> string \<Rightarrow> captured \<Rightarrow> tool_call list
    \<Rightarrow> (js_error + tool_output) \<times> captured \<times> tool_call list" where
  "search_location_execute srv query st lg =
     (case geocodeLocation srv query lg of
        (Inl e, lg') \<Rightarrow> (Inl e, st, lg')
      | (Inr result, lg') \<Rightarrow> (Inr (LocationOutput result), st, lg'))"

definition search_category_execute ::
  "mcp_server \<Rightarrow> string \<Rightarrow> string \<Rightarrow> captured \<Rightarrow> tool_call list
    \<Rightarrow> (js_error + tool_output) \<times> captured \<times> tool_call list" where
  "search_category_execute srv cat near st lg =
     (case geocodeLocation srv near lg of
        (Inl e, lg') \<Rightarrow> (Inl e, st, lg')
      | (Inr nearLocation, lg') \<Rightarrow>
         (case categorySearch srv cat (g_coordinates nearLocation) lg' of
            (Inl e, lg'') \<Rightarrow> (Inl e, st, lg'')
          | (Inr results, lg'') \<Rightarrow>
             (Inr (CategoryOutput (length results) results),
              st\<lparr> capturedSearchResults := Some results \<rparr>, lg'')))"

text \<open>
  \<^verbatim>\<open>Promise.all(locations.map(loc => geocodeLocation(loc, accessToken)))\<close>: every geocoding
  call is started whatever the others do, so all requests are issued; the promise rejects
  when one of them rejects, and otherwise resolves to all results in order. The requests are
  logged in list order, and of several rejections the first in list order is reported.
\<close>

fun geocode_all ::
  "mcp_server \<Rightarrow> string list \<Rightarrow> tool_call list \<Rightarrow> (js_error + geocoded) list \<times> tool_call list"
  where
  "geocode_all srv [] lg = ([], lg)"
| "geocode_all srv (loc # rest) lg =
     (case geocodeLocation srv loc lg of
        (r, lg') \<Rightarrow> (case geocode_all srv rest lg' of (rs, lg'') \<Rightarrow> (r # rs, lg'')))"

fun Promise_all :: "(js_error + 'a) list \<Rightarrow> js_error + 'a list" where
  "Promise_all [] = Inr []"
| "Promise_all (Inl e # rest) = Inl e"
| "Promise_all (Inr x # rest) =
     (case Promise_all rest of Inl e \<Rightarrow> Inl e | Inr xs \<Rightarrow> Inr (x # xs))"

text \<open>
  The body of the plan-route tool's \<^verbatim>\<open>execute\<close>. The tool's input schema asks for at least
  two locations (\<^verbatim>\<open>z.array(z.string()).min(2)\<close>); checking it is the agent framework's
  part, and the body itself makes no check.
\<close>

definition plan_route_execute ::
  "mcp_server \<Rightarrow> string list \<Rightarrow> captured \<Rightarrow> tool_call list
    \<Rightarrow> (js_error + tool_output) \<times> captured \<times> tool_call list" where
  "plan_route_execute srv locs st lg =
     (case geocode_all srv locs lg of
        (results, lg') \<Rightarrow>
         (case Promise_all results of
            Inl e \<Rightarrow> (Inl e, st, lg')
          | Inr geocoded \<Rightarrow>
             (let coords = map g_coordinates geocoded in
              case calculateRoute srv coords lg' of
                (Inl e, lg'') \<Rightarrow> (Inl e, st, lg'')
              | (Inr r, lg'') \<Rightarrow>
                 (let rd = \<lparr> locations = geocoded,
                              route_geometry = r_geometry r,
                              distance = toFixed2 (meters_to_miles (r_distance r)),
                              duration = seconds_to_minutes (r_duration r) \<rparr>
                  in (Inr (RouteOutput (distance rd) (duration rd)),
                      st\<lparr> capturedRouteData := Some rd \<rparr>, lg'')))))"

text \<open>
  The agent is the external language model with its framework. Of one invocation
  \<^verbatim>\<open>dcAgent.generate(query)\<close> the orchestrator sees only the tools that were run, in order,
  and the outcome: a rejection, or the final text. A tool that throws leaves the captured
  variables as they were.
\<close>

datatype agent_tool_call =
  SearchLocation string
| SearchCategory string string
| PlanRoute "string list"

type_synonym agent = "string \<Rightarrow> agent_tool_call list \<times> (js_error + string)"

fun execute_tool ::
  "mcp_server \<Rightarrow> agent_tool_call \<Rightarrow> captured \<Rightarrow> tool_call list
    \<Rightarrow> (js_error + tool_output) \<times> captured \<times> tool_call list" where
  "execute_tool srv (SearchLocation query) st lg = search_location_execute srv query st lg"
| "execute_tool srv (SearchCategory cat near) st lg = search_category_execute srv cat near st lg"
| "execute_tool srv (PlanRoute locs) st lg = plan_route_execute srv locs st lg"

fun run_tools ::
  "mcp_server \<Rightarrow> agent_tool_call list \<Rightarrow> captured \<Rightarrow> tool_call list
    \<Rightarrow> captured \<times> tool_call list" where
  "run_tools srv [] st lg = (st, lg)"
| "run_tools srv (c # cs) st lg =
     (case execute_tool srv c st lg of (_, st', lg') \<Rightarrow> run_tools srv cs st' lg')"

definition processNaturalLanguageQuery ::
  "agent \<Rightarrow> mcp_server \<Rightarrow> string \<Rightarrow> captured \<Rightarrow> tool_call list
    \<Rightarrow> (js_error + AgentResponse) \<times> captured \<times> tool_call list" where
  "processNaturalLanguageQuery dcAgent srv query st lg =
     (let st0 = st\<lparr> capturedSearchResults := None, capturedRouteData := None \<rparr> in
      case dcAgent query of
        (calls, outcome) \<Rightarrow>
         (case run_tools srv calls st0 lg of
            (st1, lg1) \<Rightarrow>
             (case outcome of
                Inl e \<Rightarrow> (Inl e, st1, lg1)
              | Inr result_text \<Rightarrow>
                 (let t0 = Text;
                      t1 = (if capturedSearchResults st1 \<noteq> None then Search_results else t0);
                      t2 = (if capturedRouteData st1 \<noteq> None then Route else t1)
                  in (Inr \<lparr> ar_type = t2,
                            searchResults = capturedSearchResults st1,
                            routeData = capturedRouteData st1,
                            ar_text = (if result_text = [] then ''No response''
                                       else result_text) \<rparr>, st1, lg1)))))"

section \<open>A mocked tool server\<close>

text \<open>
  The mock of the test scenarios: it knows two addresses, finds one coffee shop, and
  answers a directions request over at least two coordinates with one route of 1600 meters
  and 600 seconds along those coordinates; with fewer coordinates the tool reports an
  error, as the hosted tool does.
\<close>

definition mock_feature :: "string \<Rightarrow> string \<Rightarrow> coords \<Rightarrow> feature" where
  "mock_feature n addr c =
     \<lparr> f_properties = \<lparr> p_name = Some n, p_full_address = Some addr,
                         p_place_formatted = None \<rparr>,
       f_coordinates = c \<rparr>"

definition mock_features :: "feature list \<Rightarrow> js_error + tool_result" where
  "mock_features fs =
     Inr \<lparr> isError = False, content = [],
           structuredContent = Some \<lparr> features = Some fs, routes = None \<rparr> \<rparr>"

definition mock_server :: mcp_server where
  "mock_server toolName toolArgs =
     (case toolArgs of
        GeocodeArgs address _ _ \<Rightarrow>
          if address = ''White House''
          then mock_features
                 [mock_feature ''The White House'' ''1600 Pennsylvania Ave NW''
                    (- 77.0365, 38.8977)]
          else if address = ''Capitol Hill''
          then mock_features
                 [mock_feature ''Capitol Hill'' ''Capitol Hill, Washington''
                    (- 77.0090, 38.8899)]
          else mock_features []
      | CategoryArgs cat _ _ _ _ \<Rightarrow>
          if cat = ''coffee''
          then mock_features
                 [mock_feature ''Swings Coffee'' ''640 14th St NW'' (- 77.0319, 38.8976)]
          else mock_features []
      | DirectionsArgs cs _ _ \<Rightarrow>
          if length cs < 2
          then Inr \<lparr> isError = True,
                     content = [TextContent ''at least two coordinates are required''],
                     structuredContent = None \<rparr>
          else Inr \<lparr> isError = False, content = [],
                     structuredContent = Some \<lparr> features = None,
                       routes = Some [\<lparr> r_geometry = cs, r_distance = 1600,
                                        r_duration = 600 \<rparr>] \<rparr> \<rparr>)"


section \<open>The OAuth flow controller (lib/oauth.ts)\<close>

text \<open>
  The configuration is read from two environment variables; \<^verbatim>\<open>a || b\<close> with a string
  default is \<open>or_else\<close>. A string is the sequence of its UTF-8 bytes, which is what
  \<^verbatim>\<open>URLSearchParams\<close> serialises: a space becomes \<open>+\<close>, letters, digits and \<open>*-._\<close> stay,
  and every other byte is percent-encoded.
\<close>

record env =
  NEXT_PUBLIC_MAPBOX_OAUTH_CLIENT_ID :: "string option"
  NEXT_PUBLIC_OAUTH_REDIRECT_URI :: "string option"

definition or_else :: "string option \<Rightarrow> string \<Rightarrow> string" where
  "or_else v d = (case v of None \<Rightarrow> d | Some s \<Rightarrow> if s = [] then d else s)"

record oauth_config =
  authorizationEndpoint :: string
  tokenEndpoint :: string
  registrationEndpoint :: string
  clientId :: string
  redirectUri :: string
  scope :: string

definition OAUTH_CONFIG :: "env \<Rightarrow> oauth_config" where
  "OAUTH_CONFIG e =
     \<lparr> authorizationEndpoint = ''https://api.mapbox.com/oauth/authorize'',
       tokenEndpoint = ''https://mcp.mapbox.com/oauth/token'',
       registrationEndpoint = ''https://api.mapbox.com/oauth/register'',
       clientId = or_else (NEXT_PUBLIC_MAPBOX_OAUTH_CLIENT_ID e) '''',
       redirectUri = or_else (NEXT_PUBLIC_OAUTH_REDIRECT_URI e)
                       ''http://localhost:3000/auth/callback'',
       scope = ''styles:tiles styles:read fonts:read datasets:read'' \<rparr>"

definition form_safe :: "char \<Rightarrow> bool" where
  "form_safe c =
     (c \<in> set ''ABCDEFGHIJKLMNOPQRSTUVWXYZabcdefghijklmnopqrstuvwxyz0123456789*-._'')"

definition hex_digit :: "nat \<Rightarrow> char" where
  "hex_digit n = ''0123456789ABCDEF'' ! n"

definition percent_encode :: "char \<Rightarrow> string" where
  "percent_encode c = [CHR ''%'', hex_digit (of_char c div 16), hex_digit (of_char c mod 16)]"

definition form_encode :: "string \<Rightarrow> string" where
  "form_encode s =
     concat (map (\<lambda>c. if c = CHR '' '' then ''+''
                       else if form_safe c then [c] else percent_encode c) s)"

fun URLSearchParams_toString :: "(string \<times> string) list \<Rightarrow> string" where
  "URLSearchParams_toString [] = []"
| "URLSearchParams_toString [(k, v)] = form_encode k @ ''='' @ form_encode v"
| "URLSearchParams_toString ((k, v) # rest) =
     form_encode k @ ''='' @ form_encode v @ ''&'' @ URLSearchParams_toString rest"

definition getAuthorizationUrl :: "env \<Rightarrow> string \<Rightarrow> string option \<Rightarrow> string" where
  "getAuthorizationUrl e state cid =
     (let params =
        [(''response_type'', ''code''),
         (''client_id'', or_else cid (clientId (OAUTH_CONFIG e))),
         (''redirect_uri'', redirectUri (OAUTH_CONFIG e)),
         (''scope'', scope (OAUTH_CONFIG e)),
         (''state'', state)]
      in authorizationEndpoint (OAUTH_CONFIG e) @ ''?'' @ URLSearchParams_toString params)"

record token_data =
  access_token :: string
  token_type :: string
  expires_in :: int

text \<open>
  What \<^verbatim>\<open>fetch\<close> resolves to: the status flag, the body as text, and the body as
  \<^verbatim>\<open>response.json()\<close> parses it. The server is what a POST of a body to a URL answers, a
  network failure included; every POST issued is appended to \<open>posts\<close>.
\<close>

record http_response =
  ok :: bool
  body_text :: string
  body_json :: "js_error + token_data"

type_synonym http_post = "string \<times> string"

type_synonym http_server = "string \<Rightarrow> string \<Rightarrow> js_error + http_response"

text \<open>
  The browser's storage: the client credentials in \<^verbatim>\<open>localStorage\<close>, the bearer token and
  the state of the last login attempt (written by \<^verbatim>\<open>handleLogin\<close>) in \<^verbatim>\<open>sessionStorage\<close>.
  The storage helpers are modelled where they run, in the browser, where \<^verbatim>\<open>window\<close> is
  defined.
\<close>

record storage =
  mapbox_oauth_client_id :: "string option"
  mapbox_oauth_client_secret :: "string option"
  mapbox_mcp_token :: "string option"
  oauth_state :: "string option"

definition clientStorage_get :: "storage \<Rightarrow> (string \<times> string) option" where
  "clientStorage_get st =
     (case (mapbox_oauth_client_id st, mapbox_oauth_client_secret st) of
        (Some client_id, Some client_secret) \<Rightarrow>
          if client_id \<noteq> [] \<and> client_secret \<noteq> [] then Some (client_id, client_secret)
          else None
      | _ \<Rightarrow> None)"

definition exchangeCodeForToken ::
  "env \<Rightarrow> http_server \<Rightarrow> storage \<Rightarrow> string \<Rightarrow> http_post list
    \<Rightarrow> (js_error + token_data) \<times> http_post list" where
  "exchangeCodeForToken e fetch st code posts =
     (let credentials = clientStorage_get st;
          cid = or_else (map_option fst credentials) (clientId (OAUTH_CONFIG e));
          clientSecret = map_option snd credentials
      in if cid = [] then (Inl (Error ''No client ID available for token exchange''), posts)
         else
          (let params =
                 [(''grant_type'', ''authorization_code''), (''code'', code),
                  (''client_id'', cid), (''redirect_uri'', redirectUri (OAUTH_CONFIG e))]
                 @ (case clientSecret of
                      None \<Rightarrow> []
                    | Some secret \<Rightarrow> if secret = [] then [] else [(''client_secret'', secret)]);
               body = URLSearchParams_toString params;
               posts' = posts @ [(tokenEndpoint (OAUTH_CONFIG e), body)]
           in case fetch (tokenEndpoint (OAUTH_CONFIG e)) body of
                Inl err \<Rightarrow> (Inl err, posts')
              | Inr response \<Rightarrow>
                 if \<not> ok response
                 then (Inl (Error (''Failed to exchange code for token: '' @ body_text response)),
                       posts')
                 else (body_json response, posts')))"

section \<open>The OAuth callback (app/auth/callback/route.ts and app/page.tsx)\<close>

text \<open>
  The callback route answers with a redirect to the home page: with an \<^verbatim>\<open>error\<close> query
  parameter (\<open>r_error\<close> is the value the page reads back from it), or with the code and the
  state in the URL fragment. Assigning to \<^verbatim>\<open>URL.hash\<close> drops tabs and newlines and
  percent-encodes control bytes, the space, the double quote, \<open><\<close>, \<open>>\<close>, the backquote and
  every byte above \<open>~\<close>. The route runs on the server and sees no browser storage.
\<close>

record redirect =
  r_error :: "string option"
  r_hash :: string

definition fragment_encode :: "string \<Rightarrow> string" where
  "fragment_encode s =
     concat (map (\<lambda>c. if (of_char c :: nat) \<le> 32 \<or> 126 < (of_char c :: nat)
                            \<or> c \<in> set [CHR 0x22, CHR ''<'', CHR ''>'', CHR 0x60]
                         then percent_encode c else [c])
               (filter (\<lambda>c. c \<notin> set [CHR 0x09, CHR 0x0A, CHR 0x0D]) s))"

definition GET_callback :: "string option \<Rightarrow> string option \<Rightarrow> string option \<Rightarrow> redirect" where
  "GET_callback code state err =
     (if truthy err then \<lparr> r_error = err, r_hash = [] \<rparr>
      else if \<not> truthy code \<or> \<not> truthy state
      then \<lparr> r_error = Some ''missing_parameters'', r_hash = [] \<rparr>
      else \<lparr> r_error = None,
             r_hash = fragment_encode
                        (''code='' @ or_else code [] @ ''&state='' @ or_else state []) \<rparr>)"

text \<open>
  The effect that the home page runs on mount. \<open>hash\<close> is the parsed URL fragment (absent
  when the fragment is empty), \<open>search_error\<close> the \<^verbatim>\<open>error\<close> query parameter. The page's
  state is its React state together with the storage; \<open>url_replaced\<close> records
  \<^verbatim>\<open>history.replaceState\<close>. The token exchange is started inside the effect and its
  callbacks run after the effect's last statements.
\<close>

record hash_params =
  h_code :: "string option"
  h_state :: "string option"
  h_access_token :: "string option"

record location_bar =
  hash :: "hash_params option"
  search_error :: "string option"

record page =
  accessToken :: "string option"
  loading :: bool
  error_message :: "string option"
  store :: storage
  url_replaced :: bool

definition Home_mount ::
  "env \<Rightarrow> http_server \<Rightarrow> location_bar \<Rightarrow> page \<Rightarrow> http_post list \<Rightarrow> page \<times> http_post list"
  where
  "Home_mount e fetch loc pg posts =
     (let storedToken = mapbox_mcp_token (store pg) in
      if truthy storedToken then (pg\<lparr> accessToken := storedToken \<rparr>, posts)
      else
       (let (pg1, pending) =
              (case hash loc of
                 None \<Rightarrow> (pg, None)
               | Some params \<Rightarrow>
                  if truthy (h_access_token params)
                  then (pg\<lparr> store := (store pg)\<lparr> mapbox_mcp_token := h_access_token params \<rparr>,
                            accessToken := h_access_token params,
                            url_replaced := True \<rparr>, None)
                  else if truthy (h_code params) \<and> truthy (h_state params)
                  then (pg\<lparr> loading := True \<rparr>, h_code params)
                  else (pg, None));
            pg2 = (if truthy (search_error loc)
                   then pg1\<lparr> error_message :=
                                Some (''OAuth error: '' @ or_else (search_error loc) []),
                             url_replaced := True \<rparr>
                   else pg1)
        in case pending of
             None \<Rightarrow> (pg2, posts)
           | Some code \<Rightarrow>
              (case exchangeCodeForToken e fetch (store pg2) code posts of
                 (Inr tokenData, posts') \<Rightarrow>
                   (pg2\<lparr> store := (store pg2)\<lparr> mapbox_mcp_token := Some (access_token tokenData) \<rparr>,
                         accessToken := Some (access_token tokenData),
                         url_replaced := True,
                         loading := False \<rparr>, posts')
               | (Inl err, posts') \<Rightarrow>
                   (pg2\<lparr> error_message := Some (''Token exchange failed: '' @ message err),
                         loading := False \<rparr>, posts'))))"

text \<open>
  A login in progress: the client is registered, and \<^verbatim>\<open>handleLogin\<close> has stored the state
  it issued. The token endpoint of the scenario accepts every code.
\<close>

definition mock_token_server :: http_server where
  "mock_token_server url body =
     Inr \<lparr> ok = True, body_text = ''{}'',
           body_json = Inr \<lparr> access_token = ''tok-123'', token_type = ''bearer'',
                              expires_in = 3600 \<rparr> \<rparr>"

definition login_in_progress :: page where
  "login_in_progress =
     \<lparr> accessToken = None, loading = False, error_message = None,
       store = \<lparr> mapbox_oauth_client_id = Some ''client-1'',
                 mapbox_oauth_client_secret = Some ''secret-1'',
                 mapbox_mcp_token = None,
                 oauth_state = Some ''issued0state'' \<rparr>,
       url_replaced = False \<rparr>"

definition no_env :: env where
  "no_env = \<lparr> NEXT_PUBLIC_MAPBOX_OAUTH_CLIENT_ID = None, NEXT_PUBLIC_OAUTH_REDIRECT_URI = None \<rparr>"

text \<open>Three agents for the scenarios, and the state in which nothing is captured.\<close>

definition route_then_coffee :: agent where
  "route_then_coffee query =
     ([PlanRoute [''White House'', ''Capitol Hill''], SearchCategory ''coffee'' ''White House''],
      Inr ''Here is your route and some coffee shops.'')"

definition coffee_near_white_house :: agent where
  "coffee_near_white_house query =
     ([SearchCategory ''coffee'' ''White House''], Inr ''One coffee shop is nearby.'')"

definition find_white_house :: agent where
  "find_white_house query =
     ([SearchLocation ''White House''], Inr ''The White House is at 1600 Pennsylvania Ave NW.'')"

definition nothing_captured :: captured where
  "nothing_captured = \<lparr> capturedSearchResults = None, capturedRouteData = None \<rparr>"

section \<open>The orchestrator as the specification words it\<close>

text \<open>
  Following the words of the specification: the kind of side-channel output that was most
  recently produced during one invocation, \<open>Text\<close> when no tool has produced one. It
  replays the tools of the invocation and remembers the kind of the last capture.
\<close>

fun spec_most_recent ::
  "mcp_server \<Rightarrow> agent_tool_call list \<Rightarrow> captured \<Rightarrow> tool_call list \<Rightarrow> response_type
    \<Rightarrow> response_type" where
  "spec_most_recent srv [] st lg t = t"
| "spec_most_recent srv (c # cs) st lg t =
     (case execute_tool srv c st lg of
        (Inl e, st', lg') \<Rightarrow> spec_most_recent srv cs st' lg' t
      | (Inr (LocationOutput _), st', lg') \<Rightarrow> spec_most_recent srv cs st' lg' t
      | (Inr (CategoryOutput _ _), st', lg') \<Rightarrow> spec_most_recent srv cs st' lg' Search_results
      | (Inr (RouteOutput _ _), st', lg') \<Rightarrow> spec_most_recent srv cs st' lg' Route)"

text \<open>
  Likewise in the specification's words: the search results that the most recent successful
  category search handed to the agent, and the distance and duration that the most recent
  successful route plan handed to it.
\<close>

fun spec_last_search ::
  "mcp_server \<Rightarrow> agent_tool_call list \<Rightarrow> captured \<Rightarrow> tool_call list
    \<Rightarrow> search_result list option \<Rightarrow> search_result list option" where
  "spec_last_search srv [] st lg acc = acc"
| "spec_last_search srv (c # cs) st lg acc =
     (case execute_tool srv c st lg of
        (Inr (CategoryOutput _ results), st', lg') \<Rightarrow> spec_last_search srv cs st' lg' (Some results)
      | (_, st', lg') \<Rightarrow> spec_last_search srv cs st' lg' acc)"

fun spec_last_route ::
  "mcp_server \<Rightarrow> agent_tool_call list \<Rightarrow> captured \<Rightarrow> tool_call list
    \<Rightarrow> (string \<times> int) option \<Rightarrow> (string \<times> int) option" where
  "spec_last_route srv [] st lg acc = acc"
| "spec_last_route srv (c # cs) st lg acc =
     (case execute_tool srv c st lg of
        (Inr (RouteOutput d m), st', lg') \<Rightarrow> spec_last_route srv cs st' lg' (Some (d, m))
      | (_, st', lg') \<Rightarrow> spec_last_route srv cs st' lg' acc)"

section \<open>Properties of the tool invoker\<close>

lemma check_error_cases:
  "check_error result =
     (if \<not> isError result then None
      else case content result of
        [] \<Rightarrow> Some (TypeError ''Cannot read properties of undefined (reading 'type')'')
      | TextContent t # _ \<Rightarrow> Some (Error (''MCP tool error: '' @ t))
      | _ # _ \<Rightarrow> Some (Error ''MCP tool returned an error''))"
  by (simp add: check_error_def split: list.split content_entry.split)

lemma geocodeLocation_reply:
  assumes "srv ''search_and_geocode_tool'' (GeocodeArgs address (- 77.0369, 38.9072) [''us''])
             = Inr result"
  shows "fst (geocodeLocation srv address lg) =
     (case check_error result of
        Some e \<Rightarrow> Inl e
      | None \<Rightarrow>
         (case the_features (structuredContent result) of
            [] \<Rightarrow> Inl (Error (''Could not geocode: '' @ address))
          | feature # _ \<Rightarrow>
             Inr \<lparr> g_name = js_or (p_name (f_properties feature))
                               (p_full_address (f_properties feature)),
                   g_coordinates = f_coordinates feature \<rparr>))"
  using assms
  by (simp add: geocodeLocation_def callMCPTool_def no_features_def the_features_def
      split: option.split list.split)

lemma categorySearch_reply:
  assumes "srv ''category_search_tool'' (CategoryArgs cat proximity [''us''] 10 ''json_string'')
             = Inr result"
  shows "fst (categorySearch srv cat proximity lg) =
     (case check_error result of
        Some e \<Rightarrow> Inl e
      | None \<Rightarrow>
         Inr (map (\<lambda>feature.
                \<lparr> s_name = js_or (p_name (f_properties feature))
                             (p_full_address (f_properties feature)),
                  s_coordinates = f_coordinates feature,
                  s_address = js_or (p_full_address (f_properties feature))
                                (p_place_formatted (f_properties feature)) \<rparr>)
              (the_features (structuredContent result))))"
  using assms
  by (simp add: categorySearch_def callMCPTool_def no_features_def the_features_def
      split: option.split list.split)

lemma calculateRoute_reply:
  assumes "srv ''directions_tool'' (DirectionsArgs coordinates ''walking'' ''geojson'')
             = Inr result"
  shows "fst (calculateRoute srv coordinates lg) =
     (case check_error result of
        Some e \<Rightarrow> Inl e
      | None \<Rightarrow>
         (case the_routes (structuredContent result) of
            [] \<Rightarrow> Inl (Error ''No route found'')
          | r # _ \<Rightarrow> Inr r))"
  using assms
  by (simp add: calculateRoute_def callMCPTool_def no_routes_def the_routes_def
      split: option.split list.split)

text \<open>
  What the error check gives for each operation. When a tool call answers with \<open>isError\<close>
  set, each of the three operations throws. If the first content entry is a text entry,
  the error's message is \<open>MCP tool error: \<close> followed by that text, so it contains the
  text. If the first entry is of another kind, the error is the fixed
  \<open>MCP tool returned an error\<close>. If there is no first entry, it is the TypeError the
  runtime raises on reading \<open>type\<close> of \<open>undefined\<close>.
\<close>

lemma isError_reply_is_thrown:
  assumes "isError result"
  shows "\<exists>e. (srv ''search_and_geocode_tool'' (GeocodeArgs address (- 77.0369, 38.9072) [''us''])
                 = Inr result \<longrightarrow> fst (geocodeLocation srv address lg) = Inl e)
          \<and> (srv ''category_search_tool'' (CategoryArgs cat proximity [''us''] 10 ''json_string'')
                 = Inr result \<longrightarrow> fst (categorySearch srv cat proximity lg) = Inl e)
          \<and> (srv ''directions_tool'' (DirectionsArgs coordinates ''walking'' ''geojson'')
                 = Inr result \<longrightarrow> fst (calculateRoute srv coordinates lg) = Inl e)
          \<and> (\<forall>t rest. content result = TextContent t # rest \<longrightarrow>
                 e = Error (''MCP tool error: '' @ t) \<and> sublist t (message e))
          \<and> (\<forall>c rest. content result = c # rest \<and> (\<forall>t. c \<noteq> TextContent t) \<longrightarrow>
                 e = Error ''MCP tool returned an error'')
          \<and> (content result = [] \<longrightarrow>
                 e = TypeError ''Cannot read properties of undefined (reading 'type')'')"
proof -
  have "\<exists>e. check_error result = Some e"
    using assms by (simp add: check_error_def split: list.split content_entry.split)
  then obtain e where e: "check_error result = Some e" ..
  have "srv ''search_and_geocode_tool'' (GeocodeArgs address (- 77.0369, 38.9072) [''us''])
          = Inr result \<longrightarrow> fst (geocodeLocation srv address lg) = Inl e"
    using e by (simp add: geocodeLocation_reply)
  moreover
  have "srv ''category_search_tool'' (CategoryArgs cat proximity [''us''] 10 ''json_string'')
          = Inr result \<longrightarrow> fst (categorySearch srv cat proximity lg) = Inl e"
    using e by (simp add: categorySearch_reply)
  moreover
  have "srv ''directions_tool'' (DirectionsArgs coordinates ''walking'' ''geojson'')
          = Inr result \<longrightarrow> fst (calculateRoute srv coordinates lg) = Inl e"
    using e by (simp add: calculateRoute_reply)
  moreover
  have "\<forall>t rest. content result = TextContent t # rest \<longrightarrow>
          e = Error (''MCP tool error: '' @ t) \<and> sublist t (message e)"
  proof (intro allI impI)
    fix t rest
    assume "content result = TextContent t # rest"
    with e assms have eq: "e = Error (''MCP tool error: '' @ t)"
      by (simp add: check_error_def)
    have "sublist t (''MCP tool error: '' @ t)"
      by (rule sublist_append_leftI)
    then show "e = Error (''MCP tool error: '' @ t) \<and> sublist t (message e)"
      unfolding eq by (simp only: js_error.sel simp_thms)
  qed
  moreover
  have "\<forall>c rest. content result = c # rest \<and> (\<forall>t. c \<noteq> TextContent t) \<longrightarrow>
          e = Error ''MCP tool returned an error''"
    using e assms by (auto simp: check_error_cases split: content_entry.splits)
  moreover
  have "content result = [] \<longrightarrow>
          e = TypeError ''Cannot read properties of undefined (reading 'type')''"
    using e assms by (auto simp: check_error_cases)
  ultimately show ?thesis by blast
qed

text \<open>
  The scenario of a rate-limited tool: the geocoding call throws
  \<open>MCP tool error: rate limited\<close>.
\<close>

lemma rate_limited_is_thrown:
  "isError \<lparr> isError = True, content = [TextContent ''rate limited''], structuredContent = None \<rparr>
   \<and> fst (geocodeLocation
        (\<lambda>_ _. Inr \<lparr> isError = True, content = [TextContent ''rate limited''],
                      structuredContent = None \<rparr>) ''White House'' [])
     = Inl (Error ''MCP tool error: rate limited'')
   \<and> sublist ''rate limited'' ''MCP tool error: rate limited''"
proof -
  let ?r = "\<lparr> isError = True, content = [TextContent ''rate limited''],
               structuredContent = None \<rparr>"
  have h: "isError ?r" by simp
  from isError_reply_is_thrown [OF h, of "\<lambda>_ _. Inr ?r" "''White House''" "[]"]
  obtain e where
    g: "fst (geocodeLocation (\<lambda>_ _. Inr ?r) ''White House'' []) = Inl e" and
    t: "\<forall>t rest. content ?r = TextContent t # rest \<longrightarrow>
          e = Error (''MCP tool error: '' @ t) \<and> sublist t (message e)"
    by blast
  from t have e: "e = Error ''MCP tool error: rate limited''"
    by simp
  have "sublist ''rate limited'' (''MCP tool error: '' @ ''rate limited'')"
    by (rule sublist_append_leftI)
  then have "sublist ''rate limited'' ''MCP tool error: rate limited''"
    by simp
  with g h e show ?thesis by simp
qed

text \<open>
  C5 holds when the first content entry is a text entry (the message then contains its
  text) and when it is an entry of another kind (the generic
  \<open>MCP tool returned an error\<close>). It does not hold when the content array is empty: the
  code reads \<open>type\<close> of the missing first entry before it reaches the generic throw, so
  what is thrown is the runtime's TypeError and not the generic failure. This is the same in
  all three operations.
\<close>

theorem empty_content_throws_TypeError:
  "fst (geocodeLocation
          (\<lambda>_ _. Inr \<lparr> isError = True, content = [], structuredContent = None \<rparr>)
          ''White House'' [])
     = Inl (TypeError ''Cannot read properties of undefined (reading 'type')'')
   \<and> fst (categorySearch
          (\<lambda>_ _. Inr \<lparr> isError = True, content = [], structuredContent = None \<rparr>)
          ''coffee'' (- 77.0365, 38.8977) [])
     = Inl (TypeError ''Cannot read properties of undefined (reading 'type')'')
   \<and> fst (calculateRoute
          (\<lambda>_ _. Inr \<lparr> isError = True, content = [], structuredContent = None \<rparr>)
          [(- 77.0365, 38.8977), (- 77.0090, 38.8899)] [])
     = Inl (TypeError ''Cannot read properties of undefined (reading 'type')'')
   \<and> fst (geocodeLocation
          (\<lambda>_ _. Inr \<lparr> isError = True, content = [ImageContent], structuredContent = None \<rparr>)
          ''White House'' [])
     = Inl (Error ''MCP tool returned an error'')"
  by (simp add: geocodeLocation_reply categorySearch_reply calculateRoute_reply check_error_def)

text \<open>
  C6. When the geocode tool call succeeds (no rejection, \<open>isError\<close> unset) and the reply has
  no structured content, no \<open>features\<close> or an empty \<open>features\<close> array, \<open>geocodeLocation\<close>
  throws \<open>Could not geocode: \<close> followed by the address (the not-found failure). When the
  array is not empty it returns the first feature's name, or its full address when the name
  is absent or empty, together with the coordinates of the feature's geometry.
\<close>

theorem geocode_not_found_or_first_feature:
  assumes "srv ''search_and_geocode_tool'' (GeocodeArgs address (- 77.0369, 38.9072) [''us''])
             = Inr result"
    and "\<not> isError result"
  shows "((structuredContent result = None
            \<or> (\<exists>d. structuredContent result = Some d
                   \<and> (features d = None \<or> features d = Some []))) \<longrightarrow>
          fst (geocodeLocation srv address lg) = Inl (Error (''Could not geocode: '' @ address)))
       \<and> (\<forall>d f fs. structuredContent result = Some d \<and> features d = Some (f # fs) \<longrightarrow>
            fst (geocodeLocation srv address lg) =
              Inr \<lparr> g_name = (if truthy (p_name (f_properties f)) then p_name (f_properties f)
                               else p_full_address (f_properties f)),
                    g_coordinates = f_coordinates f \<rparr>)"
proof -
  have ok: "check_error result = None"
    using assms(2) by (simp add: check_error_def)
  show ?thesis
    using ok assms(1) by (auto simp: geocodeLocation_reply the_features_def js_or_def)
qed

theorem geocode_not_found_or_first_feature_witness:
  "fst (geocodeLocation
      (\<lambda>_ _. Inr \<lparr> isError = False, content = [],
                    structuredContent = Some \<lparr> features = Some [], routes = None \<rparr> \<rparr>)
      ''Atlantis'' [])
     = Inl (Error ''Could not geocode: Atlantis'')
   \<and> fst (geocodeLocation
      (\<lambda>_ _. Inr \<lparr> isError = False, content = [],
                    structuredContent = Some \<lparr> features = Some
                      [\<lparr> f_properties = \<lparr> p_name = None,
                            p_full_address = Some ''1600 Pennsylvania Ave NW'',
                            p_place_formatted = None \<rparr>,
                         f_coordinates = (- 77.0365, 38.8977) \<rparr>], routes = None \<rparr> \<rparr>)
      ''White House'' [])
     = Inr \<lparr> g_name = Some ''1600 Pennsylvania Ave NW'', g_coordinates = (- 77.0365, 38.8977) \<rparr>"
proof -
  let ?empty = "\<lparr> isError = False, content = [],
      structuredContent = Some \<lparr> features = Some [], routes = None \<rparr> \<rparr>"
  let ?f = "\<lparr> f_properties = \<lparr> p_name = None,
                  p_full_address = Some ''1600 Pennsylvania Ave NW'',
                  p_place_formatted = None \<rparr>,
              f_coordinates = (- 77.0365, 38.8977) \<rparr>"
  let ?one = "\<lparr> isError = False, content = [],
      structuredContent = Some \<lparr> features = Some [?f], routes = None \<rparr> \<rparr>"
  have a: "fst (geocodeLocation (\<lambda>_ _. Inr ?empty) ''Atlantis'' [])
      = Inl (Error (''Could not geocode: '' @ ''Atlantis''))"
    using geocode_not_found_or_first_feature
      [of "\<lambda>_ _. Inr ?empty" "''Atlantis''" ?empty "[]"]
    by simp
  have b: "fst (geocodeLocation (\<lambda>_ _. Inr ?one) ''White House'' [])
      = Inr \<lparr> g_name = (if truthy (p_name (f_properties ?f)) then p_name (f_properties ?f)
                         else p_full_address (f_properties ?f)),
              g_coordinates = f_coordinates ?f \<rparr>"
    using geocode_not_found_or_first_feature
      [of "\<lambda>_ _. Inr ?one" "''White House''" ?one "[]"]
    by simp
  from a b show ?thesis by (simp add: truthy_def)
qed

text \<open>
  C7. \<open>categorySearch\<close> issues exactly one request, to the category-search tool, and its
  \<open>limit\<close> argument is always 10. When the call succeeds and the reply has no structured
  content, no \<open>features\<close> or an empty \<open>features\<close> array, the result is the empty list and
  not an error. Otherwise every feature becomes one search result, in order: its name (or
  full address), the coordinates of its geometry, and as address the full address or, failing
  that, the formatted place, which may be absent.
\<close>

theorem categorySearch_limit_and_results:
  "snd (categorySearch srv cat proximity lg)
     = lg @ [(''category_search_tool'', CategoryArgs cat proximity [''us''] 10 ''json_string'')]
   \<and> (\<forall>result.
        srv ''category_search_tool'' (CategoryArgs cat proximity [''us''] 10 ''json_string'')
          = Inr result \<and> \<not> isError result \<longrightarrow>
        ((structuredContent result = None
           \<or> (\<exists>d. structuredContent result = Some d
                  \<and> (features d = None \<or> features d = Some []))) \<longrightarrow>
         fst (categorySearch srv cat proximity lg) = Inr [])
        \<and> (\<forall>d fs. structuredContent result = Some d \<and> features d = Some fs \<and> fs \<noteq> [] \<longrightarrow>
             fst (categorySearch srv cat proximity lg) =
               Inr (map (\<lambda>f. \<lparr> s_name = (if truthy (p_name (f_properties f))
                                          then p_name (f_properties f)
                                          else p_full_address (f_properties f)),
                                s_coordinates = f_coordinates f,
                                s_address = (if truthy (p_full_address (f_properties f))
                                             then p_full_address (f_properties f)
                                             else p_place_formatted (f_properties f)) \<rparr>) fs)))"
proof (intro conjI allI impI)
  show "snd (categorySearch srv cat proximity lg)
     = lg @ [(''category_search_tool'', CategoryArgs cat proximity [''us''] 10 ''json_string'')]"
    by (simp add: categorySearch_def callMCPTool_def Let_def split: sum.split option.split)
next
  fix result
  assume r: "srv ''category_search_tool'' (CategoryArgs cat proximity [''us''] 10 ''json_string'')
          = Inr result \<and> \<not> isError result"
  then have ok: "check_error result = None"
    by (simp add: check_error_def)
  {
    assume "structuredContent result = None
           \<or> (\<exists>d. structuredContent result = Some d
                  \<and> (features d = None \<or> features d = Some []))"
    then show "fst (categorySearch srv cat proximity lg) = Inr []"
      using r ok by (auto simp: categorySearch_reply the_features_def)
  }
  fix d fs
  assume "structuredContent result = Some d \<and> features d = Some fs \<and> fs \<noteq> []"
  then show "fst (categorySearch srv cat proximity lg) =
               Inr (map (\<lambda>f. \<lparr> s_name = (if truthy (p_name (f_properties f))
                                          then p_name (f_properties f)
                                          else p_full_address (f_properties f)),
                                s_coordinates = f_coordinates f,
                                s_address = (if truthy (p_full_address (f_properties f))
                                             then p_full_address (f_properties f)
                                             else p_place_formatted (f_properties f)) \<rparr>) fs)"
    using r ok by (simp add: categorySearch_reply the_features_def js_or_def)
qed

theorem categorySearch_limit_and_results_witness:
  "limit (snd (last (snd (categorySearch
      (\<lambda>_ _. Inr \<lparr> isError = False, content = [], structuredContent = None \<rparr>)
      ''unicorn'' (- 77.0365, 38.8977) [])))) = 10
   \<and> fst (categorySearch
      (\<lambda>_ _. Inr \<lparr> isError = False, content = [], structuredContent = None \<rparr>)
      ''unicorn'' (- 77.0365, 38.8977) []) = Inr []"
proof -
  let ?r = "\<lparr> isError = False, content = [], structuredContent = None \<rparr>"
  from categorySearch_limit_and_results
    [of "\<lambda>_ _. Inr ?r" "''unicorn''" "(- 77.0365, 38.8977)" "[]"]
  have l: "snd (categorySearch (\<lambda>_ _. Inr ?r) ''unicorn'' (- 77.0365, 38.8977) [])
     = [] @ [(''category_search_tool'',
              CategoryArgs ''unicorn'' (- 77.0365, 38.8977) [''us''] 10 ''json_string'')]"
    and e: "fst (categorySearch (\<lambda>_ _. Inr ?r) ''unicorn'' (- 77.0365, 38.8977) []) = Inr []"
    by simp_all
  from l e show ?thesis by simp
qed

section \<open>Properties of route planning\<close>

lemma geocodeLocation_log:
  "snd (geocodeLocation srv address lg)
     = lg @ [(''search_and_geocode_tool'', GeocodeArgs address (- 77.0369, 38.9072) [''us''])]"
  by (simp add: geocodeLocation_def callMCPTool_def Let_def
      split: sum.split option.split list.split)

lemma geocodeLocation_result:
  "fst (geocodeLocation srv address lg) = fst (geocodeLocation srv address [])"
  by (simp add: geocodeLocation_def callMCPTool_def Let_def
      split: sum.split option.split list.split)

lemma calculateRoute_log:
  "snd (calculateRoute srv coordinates lg)
     = lg @ [(''directions_tool'', DirectionsArgs coordinates ''walking'' ''geojson'')]"
  by (simp add: calculateRoute_def callMCPTool_def Let_def
      split: sum.split option.split list.split)

lemma geocode_loop_log:
  "\<exists>new. snd (geocode_loop srv attractions locs lg) = lg @ new
     \<and> ''directions_tool'' \<notin> fst ` set new"
proof (induction attractions arbitrary: locs lg)
  case Nil
  show ?case by simp
next
  case (Cons a rest)
  let ?call = "(''search_and_geocode_tool'',
    GeocodeArgs (a_address a) (- 77.0369, 38.9072) [''us''])"
  obtain r lg' where g: "geocodeLocation srv (a_address a) lg = (r, lg')"
    by (cases "geocodeLocation srv (a_address a) lg")
  then have lg': "lg' = lg @ [?call]"
    using geocodeLocation_log [of srv "a_address a" lg] by simp
  show ?case
  proof (cases r)
    case (Inl e)
    with g lg' show ?thesis by simp
  next
    case (Inr loc)
    from Cons.IH [of "locs @ [\<lparr> l_name = a_name a, l_coordinates = g_coordinates loc \<rparr>]" lg']
    obtain new where
      "snd (geocode_loop srv rest
              (locs @ [\<lparr> l_name = a_name a, l_coordinates = g_coordinates loc \<rparr>]) lg')
         = lg' @ new"
      and "''directions_tool'' \<notin> fst ` set new"
      by blast
    with g lg' Inr have
      "snd (geocode_loop srv (a # rest) locs lg) = lg @ (?call # new)
         \<and> ''directions_tool'' \<notin> fst ` set (?call # new)"
      by simp
    then show ?thesis by blast
  qed
qed

lemma geocode_loop_fails:
  assumes "\<exists>a\<in>set attractions. isl (fst (geocodeLocation srv (a_address a) []))"
  shows "\<exists>msg. fst (geocode_loop srv attractions locs lg) = Inl (JsonError 500 msg)"
  using assms
proof (induction attractions arbitrary: locs lg)
  case Nil
  then show ?case by simp
next
  case (Cons a rest)
  obtain r lg' where g: "geocodeLocation srv (a_address a) lg = (r, lg')"
    by (cases "geocodeLocation srv (a_address a) lg")
  then have r: "r = fst (geocodeLocation srv (a_address a) [])"
    using geocodeLocation_result [of srv "a_address a" lg] by simp
  show ?case
  proof (cases r)
    case (Inl e)
    with g show ?thesis by simp
  next
    case (Inr loc)
    with r have "fst (geocodeLocation srv (a_address a) []) = Inr loc"
      by simp
    with Cons.prems
    have "\<exists>a\<in>set rest. isl (fst (geocodeLocation srv (a_address a) []))"
      by auto
    from Cons.IH [OF this] g Inr show ?thesis by simp
  qed
qed

lemma geocode_all_log:
  "\<exists>new. snd (geocode_all srv locs lg) = lg @ new \<and> ''directions_tool'' \<notin> fst ` set new"
proof (induction locs arbitrary: lg)
  case Nil
  show ?case by simp
next
  case (Cons loc rest)
  let ?call = "(''search_and_geocode_tool'', GeocodeArgs loc (- 77.0369, 38.9072) [''us''])"
  obtain r lg' where g: "geocodeLocation srv loc lg = (r, lg')"
    by (cases "geocodeLocation srv loc lg")
  then have lg': "lg' = lg @ [?call]"
    using geocodeLocation_log [of srv loc lg] by simp
  from Cons.IH [of lg'] obtain new where
    "snd (geocode_all srv rest lg') = lg' @ new" and "''directions_tool'' \<notin> fst ` set new"
    by blast
  with g lg' have "snd (geocode_all srv (loc # rest) lg) = lg @ (?call # new)
      \<and> ''directions_tool'' \<notin> fst ` set (?call # new)"
    by (auto split: prod.split)
  then show ?case by blast
qed

lemma geocode_all_fails:
  assumes "\<exists>loc\<in>set locs. isl (fst (geocodeLocation srv loc []))"
  shows "isl (Promise_all (fst (geocode_all srv locs lg)))"
  using assms
proof (induction locs arbitrary: lg)
  case Nil
  then show ?case by simp
next
  case (Cons loc rest)
  obtain r lg' where g: "geocodeLocation srv loc lg = (r, lg')"
    by (cases "geocodeLocation srv loc lg")
  then have r: "r = fst (geocodeLocation srv loc [])"
    using geocodeLocation_result [of srv loc lg] by simp
  show ?case
  proof (cases r)
    case (Inl e)
    with g show ?thesis by (simp split: prod.split)
  next
    case (Inr x)
    with r have "fst (geocodeLocation srv loc []) = Inr x"
      by simp
    with Cons.prems have "\<exists>loc\<in>set rest. isl (fst (geocodeLocation srv loc []))"
      by auto
    from Cons.IH [OF this, of lg'] g Inr show ?thesis
      by (auto split: prod.split sum.split)
  qed
qed

text \<open>
  C2, as stated, fails: \<open>calculateRoute\<close> does not check the number of coordinates. Given
  no coordinates at all it still sends the directions request, and the failure that comes
  back is the tool's own error, after the call.
\<close>

theorem calculateRoute_too_few_counterexample:
  "calculateRoute mock_server [] [] =
     (Inl (Error ''MCP tool error: at least two coordinates are required''),
      [(''directions_tool'', DirectionsArgs [] ''walking'' ''geojson'')])"
  by code_simp

text \<open>
  C2, amended. The check is made by the plan-route handler, not by \<open>calculateRoute\<close>. A
  plan-route request with fewer than two attractions, or with no attraction list, is
  answered with status 400 and \<open>At least 2 attractions are required\<close>; nothing is sent to
  the tool server and no route data is returned. \<open>calculateRoute\<close> itself sends the
  directions request for every coordinate list.
\<close>

theorem fewer_than_two_rejected_by_handler:
  "(\<forall>attractions. length attractions < 2 \<longrightarrow>
      POST_plan_route srv (Inr (Some attractions)) lg
        = (JsonError 400 ''At least 2 attractions are required'', lg))
   \<and> POST_plan_route srv (Inr None) lg
        = (JsonError 400 ''At least 2 attractions are required'', lg)
   \<and> snd (calculateRoute srv coordinates lg)
        = lg @ [(''directions_tool'', DirectionsArgs coordinates ''walking'' ''geojson'')]"
  by (simp add: POST_plan_route_def calculateRoute_log)

theorem fewer_than_two_rejected_by_handler_witness:
  "POST_plan_route mock_server
      (Inr (Some [\<lparr> a_id = ''1'', a_name = ''White House'', a_address = ''White House'' \<rparr>])) []
     = (JsonError 400 ''At least 2 attractions are required'', [])
   \<and> POST_plan_route mock_server (Inr (Some [])) []
     = (JsonError 400 ''At least 2 attractions are required'', [])
   \<and> snd (calculateRoute mock_server [(- 77.0365, 38.8977)] [])
     = [(''directions_tool'', DirectionsArgs [(- 77.0365, 38.8977)] ''walking'' ''geojson'')]"
  using fewer_than_two_rejected_by_handler [of mock_server "[]" "[(- 77.0365, 38.8977)]"]
  by simp

text \<open>
  C8. Route planning is all or nothing. If geocoding fails for one of the attractions of a
  plan-route request, the handler answers with an error response and no route data, and
  no directions request is among the requests it has sent. Likewise, if geocoding fails
  for one of the locations given to the agent's plan-route tool, the tool throws, captures
  nothing, and sends no directions request.
\<close>

theorem route_planning_all_or_nothing:
  "((\<exists>a\<in>set attractions. isl (fst (geocodeLocation srv (a_address a) []))) \<longrightarrow>
      (\<exists>code msg new.
         POST_plan_route srv (Inr (Some attractions)) lg = (JsonError code msg, lg @ new)
         \<and> 400 \<le> code \<and> ''directions_tool'' \<notin> fst ` set new))
   \<and> ((\<exists>loc\<in>set locs. isl (fst (geocodeLocation srv loc []))) \<longrightarrow>
      (\<exists>e new.
         plan_route_execute srv locs st lg = (Inl e, st, lg @ new)
         \<and> ''directions_tool'' \<notin> fst ` set new))"
proof (intro conjI impI)
  assume fails: "\<exists>a\<in>set attractions. isl (fst (geocodeLocation srv (a_address a) []))"
  show "\<exists>code msg new.
         POST_plan_route srv (Inr (Some attractions)) lg = (JsonError code msg, lg @ new)
         \<and> 400 \<le> code \<and> ''directions_tool'' \<notin> fst ` set new"
  proof (cases "length attractions < 2")
    case True
    then have "POST_plan_route srv (Inr (Some attractions)) lg
        = (JsonError 400 ''At least 2 attractions are required'', lg @ [])"
      by (simp add: POST_plan_route_def)
    then show ?thesis by force
  next
    case False
    from geocode_loop_fails [OF fails, of "[]" lg]
    obtain msg where f: "fst (geocode_loop srv attractions [] lg) = Inl (JsonError 500 msg)"
      by blast
    from geocode_loop_log [of srv attractions "[]" lg]
    obtain new where n: "snd (geocode_loop srv attractions [] lg) = lg @ new"
      and d: "''directions_tool'' \<notin> fst ` set new"
      by blast
    from f n have "geocode_loop srv attractions [] lg = (Inl (JsonError 500 msg), lg @ new)"
      by (simp add: prod_eq_iff)
    with False have "POST_plan_route srv (Inr (Some attractions)) lg
        = (JsonError 500 msg, lg @ new)"
      by (simp add: POST_plan_route_def)
    with d show ?thesis by force
  qed
next
  assume fails: "\<exists>loc\<in>set locs. isl (fst (geocodeLocation srv loc []))"
  show "\<exists>e new. plan_route_execute srv locs st lg = (Inl e, st, lg @ new)
         \<and> ''directions_tool'' \<notin> fst ` set new"
  proof -
    from geocode_all_fails [OF fails, of lg]
    obtain e where f: "Promise_all (fst (geocode_all srv locs lg)) = Inl e"
      by (cases "Promise_all (fst (geocode_all srv locs lg))") simp_all
    from geocode_all_log [of srv locs lg]
    obtain new where n: "snd (geocode_all srv locs lg) = lg @ new"
      and d: "''directions_tool'' \<notin> fst ` set new"
      by blast
    obtain rs where rs: "geocode_all srv locs lg = (rs, lg @ new)"
      using n by (cases "geocode_all srv locs lg") simp
    with f have "plan_route_execute srv locs st lg = (Inl e, st, lg @ new)"
      by (simp add: plan_route_execute_def)
    with d show ?thesis by blast
  qed
qed

text \<open>
  With the mock, a request for the White House and an unknown place fails on the second
  attraction after two geocoding requests.
\<close>

theorem route_planning_all_or_nothing_witness:
  "isl (fst (geocodeLocation mock_server ''Atlantis'' []))
   \<and> (\<exists>code msg new.
        POST_plan_route mock_server
          (Inr (Some [\<lparr> a_id = ''1'', a_name = ''White House'', a_address = ''White House'' \<rparr>,
                      \<lparr> a_id = ''2'', a_name = ''Atlantis'', a_address = ''Atlantis'' \<rparr>])) []
          = (JsonError code msg, new)
        \<and> 400 \<le> code \<and> ''directions_tool'' \<notin> fst ` set new)
   \<and> (\<exists>e new.
        plan_route_execute mock_server [''White House'', ''Atlantis'']
          \<lparr> capturedSearchResults = None, capturedRouteData = None \<rparr> []
          = (Inl e, \<lparr> capturedSearchResults = None, capturedRouteData = None \<rparr>, new)
        \<and> ''directions_tool'' \<notin> fst ` set new)"
proof -
  have h: "isl (fst (geocodeLocation mock_server ''Atlantis'' []))"
    by code_simp
  let ?as = "[\<lparr> a_id = ''1'', a_name = ''White House'', a_address = ''White House'' \<rparr>,
              \<lparr> a_id = ''2'', a_name = ''Atlantis'', a_address = ''Atlantis'' \<rparr>]"
  let ?st = "\<lparr> capturedSearchResults = None, capturedRouteData = None \<rparr>"
  have a: "\<exists>a\<in>set ?as. isl (fst (geocodeLocation mock_server (a_address a) []))"
    using h by simp
  have l: "\<exists>loc\<in>set [''White House'', ''Atlantis'']. isl (fst (geocodeLocation mock_server loc []))"
    using h by simp
  from route_planning_all_or_nothing [of ?as mock_server "[]" "[''White House'', ''Atlantis'']" ?st]
    a l h
  show ?thesis by simp
qed

section \<open>Properties of the unit conversion\<close>







section \<open>Properties of the orchestrator\<close>

lemma execute_tool_capture:
  assumes "execute_tool srv c st lg = (out, st', lg')"
  shows "case out of
           Inl e \<Rightarrow> st' = st
         | Inr (LocationOutput _) \<Rightarrow> st' = st
         | Inr (CategoryOutput _ rs) \<Rightarrow> st' = st\<lparr> capturedSearchResults := Some rs \<rparr>
         | Inr (RouteOutput _ _) \<Rightarrow> (\<exists>rd. st' = st\<lparr> capturedRouteData := Some rd \<rparr>)"
proof (cases c)
  case (SearchLocation query)
  with assms show ?thesis
    by (auto simp: search_location_execute_def split: prod.splits sum.splits)
next
  case (SearchCategory cat near)
  with assms show ?thesis
    by (auto simp: search_category_execute_def split: prod.splits sum.splits)
next
  case (PlanRoute locs)
  with assms show ?thesis
    by (auto simp: plan_route_execute_def Let_def split: prod.splits sum.splits if_splits)
qed

lemma run_tools_tracks_captures:
  assumes "run_tools srv cs st lg = (st', lg')"
    and "t = Text \<longleftrightarrow> capturedSearchResults st = None \<and> capturedRouteData st = None"
    and "t = Route \<longrightarrow> capturedRouteData st \<noteq> None"
    and "t = Search_results \<longrightarrow> capturedSearchResults st \<noteq> None"
  shows "(spec_most_recent srv cs st lg t = Text
            \<longleftrightarrow> capturedSearchResults st' = None \<and> capturedRouteData st' = None)
       \<and> (spec_most_recent srv cs st lg t = Route \<longrightarrow> capturedRouteData st' \<noteq> None)
       \<and> (spec_most_recent srv cs st lg t = Search_results \<longrightarrow> capturedSearchResults st' \<noteq> None)"
  using assms
proof (induction cs arbitrary: st lg t)
  case Nil
  then show ?case by simp
next
  case (Cons c cs)
  obtain out st1 lg1 where ex: "execute_tool srv c st lg = (out, st1, lg1)"
    by (cases "execute_tool srv c st lg")
  note cap = execute_tool_capture [OF ex]
  from Cons.prems(1) ex have run: "run_tools srv cs st1 lg1 = (st', lg')"
    by simp
  show ?case
  proof (cases out)
    case (Inl e)
    with cap have "st1 = st" by simp
    with Cons.IH [OF run, of t] Cons.prems ex Inl show ?thesis by simp
  next
    case (Inr o1)
    show ?thesis
    proof (cases o1)
      case (LocationOutput g)
      with cap Inr have "st1 = st" by simp
      with Cons.IH [OF run, of t] Cons.prems ex Inr LocationOutput show ?thesis by simp
    next
      case (CategoryOutput n rs)
      with cap Inr have "st1 = st\<lparr> capturedSearchResults := Some rs \<rparr>" by simp
      with Cons.IH [OF run, of Search_results] ex Inr CategoryOutput show ?thesis by simp
    next
      case (RouteOutput d m)
      with cap Inr obtain rd where "st1 = st\<lparr> capturedRouteData := Some rd \<rparr>" by auto
      with Cons.IH [OF run, of Route] ex Inr RouteOutput show ?thesis by simp
    qed
  qed
qed

lemma execute_tool_payload:
  assumes "execute_tool srv c st lg = (out, st', lg')"
  shows "case out of
           Inl e \<Rightarrow> st' = st
         | Inr (LocationOutput _) \<Rightarrow> st' = st
         | Inr (CategoryOutput _ rs) \<Rightarrow> st' = st\<lparr> capturedSearchResults := Some rs \<rparr>
         | Inr (RouteOutput d m) \<Rightarrow>
             capturedSearchResults st' = capturedSearchResults st
             \<and> (\<exists>rd. capturedRouteData st' = Some rd \<and> distance rd = d \<and> duration rd = m)"
proof (cases c)
  case (SearchLocation query)
  with assms show ?thesis
    by (auto simp: search_location_execute_def split: prod.splits sum.splits)
next
  case (SearchCategory cat near)
  with assms show ?thesis
    by (auto simp: search_category_execute_def split: prod.splits sum.splits)
next
  case (PlanRoute locs)
  with assms show ?thesis
    by (auto simp: plan_route_execute_def Let_def split: prod.splits sum.splits)
qed

lemma run_tools_tracks_payloads:
  assumes "run_tools srv cs st lg = (st', lg')"
    and "capturedSearchResults st = acc_s"
    and "map_option (\<lambda>rd. (distance rd, duration rd)) (capturedRouteData st) = acc_r"
  shows "capturedSearchResults st' = spec_last_search srv cs st lg acc_s
       \<and> map_option (\<lambda>rd. (distance rd, duration rd)) (capturedRouteData st')
           = spec_last_route srv cs st lg acc_r"
  using assms
proof (induction cs arbitrary: st lg acc_s acc_r)
  case Nil
  then show ?case by simp
next
  case (Cons c cs)
  obtain out st1 lg1 where ex: "execute_tool srv c st lg = (out, st1, lg1)"
    by (cases "execute_tool srv c st lg")
  note cap = execute_tool_payload [OF ex]
  from Cons.prems(1) ex have run: "run_tools srv cs st1 lg1 = (st', lg')"
    by simp
  show ?case
  proof (cases out)
    case (Inl e)
    with cap have "st1 = st" by simp
    with Cons.IH [OF run, of acc_s acc_r] Cons.prems ex Inl show ?thesis by simp
  next
    case (Inr o1)
    show ?thesis
    proof (cases o1)
      case (LocationOutput g)
      with cap Inr have "st1 = st" by simp
      with Cons.IH [OF run, of acc_s acc_r] Cons.prems ex Inr LocationOutput show ?thesis
        by simp
    next
      case (CategoryOutput n rs)
      with cap Inr have "st1 = st\<lparr> capturedSearchResults := Some rs \<rparr>" by simp
      with Cons.IH [OF run, of "Some rs" acc_r] Cons.prems ex Inr CategoryOutput
      show ?thesis by simp
    next
      case (RouteOutput d m)
      with cap Inr obtain rd where "capturedSearchResults st1 = capturedSearchResults st"
        and "capturedRouteData st1 = Some rd" and "distance rd = d" and "duration rd = m"
        by auto
      with Cons.IH [OF run, of acc_s "Some (d, m)"] Cons.prems ex Inr RouteOutput
      show ?thesis by simp
    qed
  qed
qed

lemma captured_reset: "(st::captured)\<lparr> capturedSearchResults := None, capturedRouteData := None \<rparr> = nothing_captured"
  by (simp add: nothing_captured_def)

lemma run_tools_no_capture:
  assumes "\<forall>c\<in>set cs. \<exists>q. c = SearchLocation q"
  shows "fst (run_tools srv cs st lg) = st"
  using assms
proof (induction cs arbitrary: lg)
  case Nil
  show ?case by simp
next
  case (Cons c cs)
  then obtain q where c: "c = SearchLocation q" by auto
  obtain out st1 lg1 where ex: "execute_tool srv c st lg = (out, st1, lg1)"
    by (cases "execute_tool srv c st lg")
  with c have "st1 = st"
    by (auto simp: search_location_execute_def split: prod.splits sum.splits)
  with Cons ex show ?case by simp
qed

text \<open>
  C3, as stated, fails. When the agent plans a route and then runs a category search in the
  same invocation, the most recently produced output is the search results, but the
  envelope is tagged \<open>route\<close>.
\<close>

theorem response_type_most_recent_counterexample: "map_sum id ar_type
      (fst (processNaturalLanguageQuery route_then_coffee mock_server ''route and coffee''
              nothing_captured [])) = Inr Route
   \<and> spec_most_recent mock_server (fst (route_then_coffee ''route and coffee''))
        nothing_captured [] Text = Search_results"
  by code_simp

text \<open>
  C3, amended. An envelope that is returned carries both captured values: the search
  results that the last successful category search of this invocation returned, and the
  route data of its last successful route plan, each absent when no such tool succeeded.
  Its type is \<open>route\<close> when route data was captured, otherwise \<open>search_results\<close> when
  search results were captured, otherwise \<open>text\<close>. This is the kind of the most recently
  produced output, except when search results were produced last and route data was
  captured before them in the same invocation: then the type is \<open>route\<close>.
\<close>

theorem response_type_from_captured_data:
  assumes "fst (processNaturalLanguageQuery dcAgent srv query st lg) = Inr resp"
  shows "searchResults resp
           = capturedSearchResults (fst (run_tools srv (fst (dcAgent query)) nothing_captured lg))
       \<and> routeData resp
           = capturedRouteData (fst (run_tools srv (fst (dcAgent query)) nothing_captured lg))
       \<and> searchResults resp
           = spec_last_search srv (fst (dcAgent query)) nothing_captured lg None
       \<and> map_option (\<lambda>rd. (distance rd, duration rd)) (routeData resp)
           = spec_last_route srv (fst (dcAgent query)) nothing_captured lg None
       \<and> ar_type resp = (if routeData resp \<noteq> None then Route
                         else if searchResults resp \<noteq> None then Search_results else Text)
       \<and> ar_type resp =
           (if routeData resp \<noteq> None
               \<and> spec_most_recent srv (fst (dcAgent query)) nothing_captured lg Text
                   = Search_results
            then Route
            else spec_most_recent srv (fst (dcAgent query)) nothing_captured lg Text)"
proof -
  obtain calls outcome where ag: "dcAgent query = (calls, outcome)"
    by (cases "dcAgent query")
  obtain st1 lg1 where run: "run_tools srv calls nothing_captured lg = (st1, lg1)"
    by (cases "run_tools srv calls nothing_captured lg")
  from assms ag run obtain result_text where out: "outcome = Inr result_text"
    by (cases outcome) (simp_all add: processNaturalLanguageQuery_def captured_reset)
  let ?t = "spec_most_recent srv calls nothing_captured lg Text"
  have inv: "(?t = Text \<longleftrightarrow> capturedSearchResults st1 = None \<and> capturedRouteData st1 = None)
       \<and> (?t = Route \<longrightarrow> capturedRouteData st1 \<noteq> None)
       \<and> (?t = Search_results \<longrightarrow> capturedSearchResults st1 \<noteq> None)"
    by (rule run_tools_tracks_captures [OF run]) (simp_all add: nothing_captured_def)
  have pay: "capturedSearchResults st1 = spec_last_search srv calls nothing_captured lg None
       \<and> map_option (\<lambda>rd. (distance rd, duration rd)) (capturedRouteData st1)
           = spec_last_route srv calls nothing_captured lg None"
    by (rule run_tools_tracks_payloads [OF run]) (simp_all add: nothing_captured_def)
  from assms ag run out have resp: "resp =
      \<lparr> ar_type = (if capturedRouteData st1 \<noteq> None then Route
                    else if capturedSearchResults st1 \<noteq> None then Search_results else Text),
        searchResults = capturedSearchResults st1,
        routeData = capturedRouteData st1,
        ar_text = (if result_text = [] then ''No response'' else result_text) \<rparr>"
    by (auto simp: processNaturalLanguageQuery_def captured_reset Let_def)
  have a: "searchResults resp = capturedSearchResults st1" using resp by simp
  have b: "routeData resp = capturedRouteData st1" using resp by simp
  have a': "searchResults resp = spec_last_search srv calls nothing_captured lg None"
    using a pay by simp
  have b': "map_option (\<lambda>rd. (distance rd, duration rd)) (routeData resp)
      = spec_last_route srv calls nothing_captured lg None"
    using b pay by simp
  have c: "ar_type resp = (if routeData resp \<noteq> None then Route
                         else if searchResults resp \<noteq> None then Search_results else Text)"
    using resp by simp
  have d: "ar_type resp = (if routeData resp \<noteq> None \<and> ?t = Search_results then Route else ?t)"
    using inv c a b by (cases ?t) auto
  have calls: "fst (dcAgent query) = calls" using ag by simp
  have st1: "fst (run_tools srv calls nothing_captured lg) = st1" using run by simp
  from a b a' b' c d show ?thesis unfolding calls st1 by blast
qed

theorem response_type_from_captured_data_witness:
  "fst (processNaturalLanguageQuery route_then_coffee mock_server ''route and coffee''
          nothing_captured [])
     = Inr \<lparr> ar_type = Route,
             searchResults = Some [\<lparr> s_name = Some ''Swings Coffee'',
                                     s_coordinates = (- 77.0319, 38.8976),
                                     s_address = Some ''640 14th St NW'' \<rparr>],
             routeData = Some \<lparr> locations =
                 [\<lparr> g_name = Some ''The White House'', g_coordinates = (- 77.0365, 38.8977) \<rparr>,
                  \<lparr> g_name = Some ''Capitol Hill'', g_coordinates = (- 77.0090, 38.8899) \<rparr>],
               route_geometry = [(- 77.0365, 38.8977), (- 77.0090, 38.8899)],
               distance = ''0.99'', duration = 10 \<rparr>,
             ar_text = ''Here is your route and some coffee shops.'' \<rparr>
   \<and> spec_last_search mock_server (fst (route_then_coffee ''route and coffee''))
        nothing_captured [] None
     = Some [\<lparr> s_name = Some ''Swings Coffee'', s_coordinates = (- 77.0319, 38.8976),
               s_address = Some ''640 14th St NW'' \<rparr>]
   \<and> spec_last_route mock_server (fst (route_then_coffee ''route and coffee''))
        nothing_captured [] None
     = Some (''0.99'', 10)
   \<and> map_sum id ar_type
        (fst (processNaturalLanguageQuery coffee_near_white_house mock_server ''coffee''
                nothing_captured [])) = Inr Search_results
   \<and> spec_most_recent mock_server (fst (coffee_near_white_house ''coffee''))
        nothing_captured [] Text = Search_results"
proof -
  let ?coffee = "\<lparr> s_name = Some ''Swings Coffee'', s_coordinates = (- 77.0319, 38.8976),
                   s_address = Some ''640 14th St NW'' \<rparr>"
  let ?rd = "\<lparr> locations =
                 [\<lparr> g_name = Some ''The White House'', g_coordinates = (- 77.0365, 38.8977) \<rparr>,
                  \<lparr> g_name = Some ''Capitol Hill'', g_coordinates = (- 77.0090, 38.8899) \<rparr>],
               route_geometry = [(- 77.0365, 38.8977), (- 77.0090, 38.8899)],
               distance = ''0.99'', duration = 10 \<rparr>"
  let ?r1 = "\<lparr> ar_type = Route, searchResults = Some [?coffee], routeData = Some ?rd,
               ar_text = ''Here is your route and some coffee shops.'' \<rparr>"
  let ?r2 = "\<lparr> ar_type = Search_results, searchResults = Some [?coffee], routeData = None,
               ar_text = ''One coffee shop is nearby.'' \<rparr>"
  have h1: "fst (processNaturalLanguageQuery route_then_coffee mock_server ''route and coffee''
      nothing_captured []) = Inr ?r1"
    by code_simp
  have h2: "fst (processNaturalLanguageQuery coffee_near_white_house mock_server ''coffee''
      nothing_captured []) = Inr ?r2"
    by code_simp
  note t1 = response_type_from_captured_data [OF h1]
  note t2 = response_type_from_captured_data [OF h2]
  from t1 [THEN conjunct2, THEN conjunct2, THEN conjunct1, symmetric]
  have s: "spec_last_search mock_server (fst (route_then_coffee ''route and coffee''))
        nothing_captured [] None = Some [?coffee]"
    by simp
  from t1 [THEN conjunct2, THEN conjunct2, THEN conjunct2, THEN conjunct1, symmetric]
  have r: "spec_last_route mock_server (fst (route_then_coffee ''route and coffee''))
        nothing_captured [] None = Some (''0.99'', 10)"
    by simp
  from t2 [THEN conjunct2, THEN conjunct2, THEN conjunct2, THEN conjunct2, THEN conjunct2,
    symmetric]
  have m: "spec_most_recent mock_server (fst (coffee_near_white_house ''coffee''))
        nothing_captured [] Text = Search_results"
    by simp
  from h1 h2 s r m show ?thesis by simp
qed

text \<open>
  C10. The orchestrator clears both captured variables on entry, so its result does not
  depend on what an earlier call left in them. In particular, when the agent runs no
  capturing tool (only location searches, or no tool) and answers with a text, the
  envelope has type \<open>text\<close> and carries neither search results nor route data.
\<close>

theorem captured_data_reset_on_entry:
  "processNaturalLanguageQuery dcAgent srv query st lg
     = processNaturalLanguageQuery dcAgent srv query nothing_captured lg
   \<and> ((\<forall>c\<in>set (fst (dcAgent query)). \<exists>q. c = SearchLocation q)
        \<and> snd (dcAgent query) = Inr result_text \<longrightarrow>
      fst (processNaturalLanguageQuery dcAgent srv query st lg)
        = Inr \<lparr> ar_type = Text, searchResults = None, routeData = None,
                ar_text = (if result_text = [] then ''No response'' else result_text) \<rparr>)"
proof (intro conjI impI)
  show "processNaturalLanguageQuery dcAgent srv query st lg
     = processNaturalLanguageQuery dcAgent srv query nothing_captured lg"
    by (simp add: processNaturalLanguageQuery_def captured_reset)
next
  assume h: "(\<forall>c\<in>set (fst (dcAgent query)). \<exists>q. c = SearchLocation q)
        \<and> snd (dcAgent query) = Inr result_text"
  obtain calls where ag: "dcAgent query = (calls, Inr result_text)"
    using h by (cases "dcAgent query") simp
  with h have "fst (run_tools srv calls nothing_captured lg) = nothing_captured"
    by (simp add: run_tools_no_capture)
  then obtain lg1 where "run_tools srv calls nothing_captured lg = (nothing_captured, lg1)"
    by (cases "run_tools srv calls nothing_captured lg") simp
  with ag show "fst (processNaturalLanguageQuery dcAgent srv query st lg)
        = Inr \<lparr> ar_type = Text, searchResults = None, routeData = None,
                ar_text = (if result_text = [] then ''No response'' else result_text) \<rparr>"
    by (simp add: processNaturalLanguageQuery_def captured_reset nothing_captured_def)
qed

text \<open>
  Two calls in sequence: the first captures a route and search results; the second, which
  only looks up a place, returns a plain text envelope.
\<close>

theorem captured_data_reset_on_entry_witness:
  "capturedRouteData (fst (snd (processNaturalLanguageQuery route_then_coffee mock_server
       ''route and coffee'' nothing_captured []))) \<noteq> None
   \<and> capturedSearchResults (fst (snd (processNaturalLanguageQuery route_then_coffee mock_server
       ''route and coffee'' nothing_captured []))) \<noteq> None
   \<and> fst (processNaturalLanguageQuery find_white_house mock_server ''find the white house''
        (fst (snd (processNaturalLanguageQuery route_then_coffee mock_server
           ''route and coffee'' nothing_captured [])))
        (snd (snd (processNaturalLanguageQuery route_then_coffee mock_server
           ''route and coffee'' nothing_captured []))))
     = Inr \<lparr> ar_type = Text, searchResults = None, routeData = None,
             ar_text = ''The White House is at 1600 Pennsylvania Ave NW.'' \<rparr>"
proof -
  let ?first = "processNaturalLanguageQuery route_then_coffee mock_server
       ''route and coffee'' nothing_captured []"
  have a: "capturedRouteData (fst (snd ?first)) \<noteq> None"
    by code_simp
  have b: "capturedSearchResults (fst (snd ?first)) \<noteq> None"
    by code_simp
  have h: "(\<forall>c\<in>set (fst (find_white_house ''find the white house'')). \<exists>q. c = SearchLocation q)
      \<and> snd (find_white_house ''find the white house'')
          = Inr ''The White House is at 1600 Pennsylvania Ave NW.''"
    by (simp add: find_white_house_def)
  from captured_data_reset_on_entry
    [of find_white_house mock_server "''find the white house''" "fst (snd ?first)"
        "snd (snd ?first)" "''The White House is at 1600 Pennsylvania Ave NW.''"] h
  have "fst (processNaturalLanguageQuery find_white_house mock_server ''find the white house''
        (fst (snd ?first)) (snd (snd ?first)))
     = Inr \<lparr> ar_type = Text, searchResults = None, routeData = None,
             ar_text = (if ''The White House is at 1600 Pennsylvania Ave NW.'' = [] then ''No response''
                        else ''The White House is at 1600 Pennsylvania Ave NW.'') \<rparr>"
    by blast
  with a b show ?thesis by simp
qed


section \<open>Properties of the OAuth flow\<close>

lemma form_encode_names:
  "form_encode ''response_type'' = ''response_type''"
  "form_encode ''code'' = ''code''"
  "form_encode ''client_id'' = ''client_id''"
  "form_encode ''redirect_uri'' = ''redirect_uri''"
  "form_encode ''scope'' = ''scope''"
  "form_encode ''state'' = ''state''"
  by code_simp+

lemma form_encode_scope:
  "form_encode ''styles:tiles styles:read fonts:read datasets:read''
     = ''styles%3Atiles+styles%3Aread+fonts%3Aread+datasets%3Aread''"
  by code_simp

text \<open>
  C9, as stated, fails. With no client id passed and none configured, the function does
  not fail: it returns a URL whose \<open>client_id\<close> parameter is silently empty.
\<close>

theorem authorization_url_silent_default_counterexample:
  "getAuthorizationUrl no_env ''xyz'' None =
     ''https://api.mapbox.com/oauth/authorize?response_type=code&client_id=&redirect_uri=http%3A%2F%2Flocalhost%3A3000%2Fauth%2Fcallback&scope=styles%3Atiles+styles%3Aread+fonts%3Aread+datasets%3Aread&state=xyz''"
  by code_simp

text \<open>
  C9, amended. Building the authorization URL is a pure string construction that never
  fails. The authorization endpoint is the fixed \<open>https://api.mapbox.com/oauth/authorize\<close>
  and the scope is fixed. The \<open>client_id\<close> parameter is the client id passed in, else the
  configured one, else the empty string; the redirect URI is the configured one, else
  \<open>http://localhost:3000/auth/callback\<close>. Each value is form-encoded.
\<close>

theorem authorization_url_is_total:
  "getAuthorizationUrl e state cid =
     ''https://api.mapbox.com/oauth/authorize?response_type=code&client_id=''
       @ form_encode (or_else cid (or_else (NEXT_PUBLIC_MAPBOX_OAUTH_CLIENT_ID e) []))
       @ ''&redirect_uri=''
       @ form_encode (or_else (NEXT_PUBLIC_OAUTH_REDIRECT_URI e)
                        ''http://localhost:3000/auth/callback'')
       @ ''&scope=styles%3Atiles+styles%3Aread+fonts%3Aread+datasets%3Aread&state=''
       @ form_encode state"
  by (simp add: getAuthorizationUrl_def OAUTH_CONFIG_def form_encode_names form_encode_scope)

text \<open>
  The callback route forwards every callback that has a code and a state, whatever the
  state is, and answers \<open>missing_parameters\<close> when one of them is absent.
\<close>

lemma callback_route_checks_presence_only:
  "GET_callback (Some ''stolen-code'') (Some ''forged'') None
     = \<lparr> r_error = None, r_hash = ''code=stolen-code&state=forged'' \<rparr>"
  "GET_callback (Some ''stolen-code'') None None
     = \<lparr> r_error = Some ''missing_parameters'', r_hash = [] \<rparr>"
  "GET_callback (Some ''a b'') (Some ''forged'') None
     = \<lparr> r_error = None, r_hash = ''code=a%20b&state=forged'' \<rparr>"
  by code_simp+

text \<open>
  Nothing in the token exchange or in the mount effect reads the stored state: changing it
  changes nothing but the stored state itself.
\<close>

lemma exchange_ignores_oauth_state:
  "exchangeCodeForToken e fetch (st\<lparr> oauth_state := s \<rparr>) code posts
     = exchangeCodeForToken e fetch st code posts"
  by (simp add: exchangeCodeForToken_def clientStorage_get_def)

lemma Home_mount_ignores_oauth_state:
  "Home_mount e fetch loc (pg\<lparr> store := (store pg)\<lparr> oauth_state := s \<rparr> \<rparr>) posts
     = (case Home_mount e fetch loc pg posts of
          (pg', posts') \<Rightarrow> (pg'\<lparr> store := (store pg')\<lparr> oauth_state := s \<rparr> \<rparr>, posts'))"
  by (simp add: Home_mount_def Let_def exchange_ignores_oauth_state
      split: option.split prod.split sum.split)

text \<open>
  C1 is what the documentation promises (the state parameter is there to prevent CSRF), but
  the code does not do it. \<^verbatim>\<open>handleLogin\<close> stores the state it issued, and nothing reads it
  back: the callback route only checks that a state is present, and the home page starts
  the token exchange for any callback with a code and a state. Here the stored state is
  \<open>issued0state\<close>, the callback carries \<open>forged\<close>, and the code is exchanged and the token
  accepted.
\<close>

theorem forged_state_is_exchanged:
  "oauth_state (store login_in_progress) = Some ''issued0state''
   \<and> Home_mount no_env mock_token_server
        \<lparr> hash = Some \<lparr> h_code = Some ''stolen-code'', h_state = Some ''forged'',
                          h_access_token = None \<rparr>,
          search_error = None \<rparr>
        login_in_progress []
     = (login_in_progress
          \<lparr> accessToken := Some ''tok-123'',
            store := (store login_in_progress)\<lparr> mapbox_mcp_token := Some ''tok-123'' \<rparr>,
            url_replaced := True \<rparr>,
        [(''https://mcp.mapbox.com/oauth/token'',
          ''grant_type=authorization_code&code=stolen-code&client_id=client-1&redirect_uri=http%3A%2F%2Flocalhost%3A3000%2Fauth%2Fcallback&client_secret=secret-1'')])"
  by code_simp

end
